theory Spec2Isabelle
  imports Complex_Main
begin

section \<open>The quiz-at-time component (src/js/quiz-at-time.js)\<close>

text \<open>
  The component gates a multiple-choice question behind a playback time. Its instance
  fields, the scene objects it writes to and the media calls it makes are gathered in one
  state record; every method of the class is a function from state to state.

  Times are JavaScript numbers. The component does three things with them: it starts the
  timer at zero, adds a frame delta to it, and compares a time with the trigger time.
  The number type is therefore a parameter \<open>'n\<close> of the model, with its own zero,
  addition and order. Facts that need no arithmetic hold for every such type, rounding
  addition and an order with incomparable values (NaN) included; facts that need the
  order to agree with addition say so in their type.

  Every member access of the source sits behind a truthiness guard and the source has no
  \<^verbatim>\<open>throw\<close>, so no method has a failing branch and the functions below return a
  state on every input.
\<close>

subsection \<open>Data\<close>

text \<open>Scene objects and their components are referred to by identity.\<close>

type_synonym obj = nat
type_synonym comp = nat

text \<open>
  The editor properties (\<^verbatim>\<open>static Properties\<close>, lines 12-31). An unassigned object
  property is \<open>None\<close>. The component only reads them.
\<close>

record 'n config =
  videoObject :: "obj option"
  quizTime :: 'n
  buttonA :: "obj option"
  buttonB :: "obj option"
  buttonC :: "obj option"
  correctAnswer :: string
  feedbackObject :: "obj option"

text \<open>
  What the scene answers to \<^verbatim>\<open>getComponent\<close> at \<^verbatim>\<open>start\<close>: the video-texture
  component and the text component of an object, if it has one.
\<close>

record host =
  videoTexture :: "obj \<Rightarrow> comp option"
  textComponent :: "obj \<Rightarrow> comp option"

text \<open>The calls made on the media elements, in the order they are made.\<close>

datatype call = VideoPause | VideoPlay | AudioPlay

text \<open>
  The instance fields (\<open>quizShown\<close> to \<open>audioSource\<close>), the click handlers and
  warnings produced by \<^verbatim>\<open>_setupButton\<close>, and the part of the scene the component
  writes: the \<^verbatim>\<open>active\<close> flag of every object, the text of every text component and
  the media calls. Two properties may name the same object; the flags are kept per object,
  so a write through one name is seen through the other. The field \<open>audioSource\<close> is
  read at line 144 and declared nowhere; it is \<open>None\<close> while it is undefined.
\<close>

record 'n quiz =
  quizShown :: bool
  quizCompleted :: bool
  elapsed :: 'n
  videoComponent :: "comp option"
  feedbackText :: "comp option"
  audioSource :: "obj option"
  handlers :: "(obj \<times> string) list"
  warnings :: "string list"
  active :: "obj \<Rightarrow> bool"
  textOf :: "comp \<Rightarrow> string"
  calls :: "call list"

text \<open>
  The phase of the specification, read off the two flags. The source tests
  \<open>quizCompleted\<close> and \<open>quizShown\<close> separately; both guards (lines 74 and 128)
  treat a completed quiz as finished whatever \<open>quizShown\<close> says.
\<close>

datatype phase = Waiting | Active | Completed

definition phase :: "'n quiz \<Rightarrow> phase" where
  "phase q = (if quizCompleted q then Completed else if quizShown q then Active else Waiting)"

subsection \<open>Helpers\<close>

text \<open>\<^verbatim>\<open>if (o) o.active = b\<close>, the statement of lines 166, 168 and 170.\<close>

fun setActive :: "obj option \<Rightarrow> bool \<Rightarrow> 'n quiz \<Rightarrow> 'n quiz" where
  "setActive None b q = q"
| "setActive (Some x) b q = q\<lparr>active := (active q)(x := b)\<rparr>"

text \<open>\<^verbatim>\<open>_setButtonsActive\<close> (lines 164-171): A, then B, then C.\<close>

definition setButtonsActive :: "'n config \<Rightarrow> bool \<Rightarrow> 'n quiz \<Rightarrow> 'n quiz" where
  "setButtonsActive cfg b q =
     setActive (buttonC cfg) b (setActive (buttonB cfg) b (setActive (buttonA cfg) b q))"

text \<open>
  \<^verbatim>\<open>_showFeedback\<close> (lines 174-184): nothing without a feedback object; otherwise the
  object is made visible and, if a text component was found at start, its text is set.
\<close>

definition showFeedback :: "'n config \<Rightarrow> string \<Rightarrow> 'n quiz \<Rightarrow> 'n quiz" where
  "showFeedback cfg t q =
     (case feedbackObject cfg of
        None \<Rightarrow> q
      | Some f \<Rightarrow>
          (let q1 = q\<lparr>active := (active q)(f := True)\<rparr>
           in case feedbackText q1 of
                None \<Rightarrow> q1
              | Some c \<Rightarrow> q1\<lparr>textOf := (textOf q1)(c := t)\<rparr>))"

text \<open>
  \<^verbatim>\<open>_setupButton\<close> (lines 109-123): an unassigned button is reported and skipped; an
  assigned one gets a click handler that forwards its answer letter. The handler sits on
  the object's cursor target, which the host finds or adds; the model records the handler
  with the object.
\<close>

fun setupButton :: "obj option \<Rightarrow> string \<Rightarrow> 'n quiz \<Rightarrow> 'n quiz" where
  "setupButton None answer q =
     q\<lparr>warnings := warnings q @ [''QuizAtTime: button for '' @ answer @ '' not assigned'']\<rparr>"
| "setupButton (Some b) answer q = q\<lparr>handlers := handlers q @ [(b, answer)]\<rparr>"

text \<open>
  The guard \<^verbatim>\<open>this.videoComponent && this.videoComponent.video\<close> of lines 80, 96 and
  139. The HTML video element belongs to the host and may appear or vanish between
  calls; each call receives it as \<open>v\<close>: \<open>None\<close> when there is no element, \<open>Some t\<close>
  when there is one and its \<^verbatim>\<open>currentTime\<close> is \<open>t\<close>.
\<close>

definition hasVideo :: "'n quiz \<Rightarrow> 'n option \<Rightarrow> bool" where
  "hasVideo q v = (videoComponent q \<noteq> None \<and> v \<noteq> None)"

subsection \<open>Methods\<close>

text \<open>\<^verbatim>\<open>start\<close> (lines 34-69), on the instance and scene as they are before the call.\<close>

definition start :: "('n::zero) config \<Rightarrow> host \<Rightarrow> 'n quiz \<Rightarrow> 'n quiz" where
  "start cfg h q =
     (let q1 = q\<lparr>quizShown := False, quizCompleted := False, elapsed := 0,
                 videoComponent := None\<rparr>;
          q2 = (case videoObject cfg of
                  None \<Rightarrow> q1
                | Some vo \<Rightarrow> q1\<lparr>videoComponent := videoTexture h vo\<rparr>);
          q3 = q2\<lparr>feedbackText := None\<rparr>;
          q4 = (case feedbackObject cfg of
                  None \<Rightarrow> q3
                | Some f \<Rightarrow> q3\<lparr>feedbackText := textComponent h f,
                               active := (active q3)(f := False)\<rparr>);
          q5 = setupButton (buttonA cfg) ''A'' q4;
          q6 = setupButton (buttonB cfg) ''B'' q5;
          q7 = setupButton (buttonC cfg) ''C'' q6
      in setButtonsActive cfg False q7)"

text \<open>
  Lines 77-88 of \<^verbatim>\<open>update\<close>: the clock sample of a tick, with the state after taking
  it. The video's time is used when the guard holds; otherwise the frame delta is added to
  \<open>elapsed\<close> and the sum is the sample.
\<close>

definition sample :: "('n::plus) quiz \<Rightarrow> 'n option \<Rightarrow> 'n \<Rightarrow> 'n \<times> 'n quiz" where
  "sample q v dt =
     (case v of
        Some t \<Rightarrow> if videoComponent q \<noteq> None then (t, q)
                  else (elapsed q + dt, q\<lparr>elapsed := elapsed q + dt\<rparr>)
      | None \<Rightarrow> (elapsed q + dt, q\<lparr>elapsed := elapsed q + dt\<rparr>))"

text \<open>\<^verbatim>\<open>update\<close> (lines 72-106).\<close>

definition update :: "('n::{plus,ord}) config \<Rightarrow> 'n option \<Rightarrow> 'n \<Rightarrow> 'n quiz \<Rightarrow> 'n quiz" where
  "update cfg v dt q =
     (if quizCompleted q \<or> quizShown q then q
      else
        (let (currentTime, q1) = sample q v dt
         in if currentTime \<ge> quizTime cfg then
              (let q2 = q1\<lparr>quizShown := True\<rparr>;
                   q3 = (if hasVideo q2 v then q2\<lparr>calls := calls q2 @ [VideoPause]\<rparr> else q2);
                   q4 = setButtonsActive cfg True q3
               in showFeedback cfg '''' q4)
            else q1))"

text \<open>\<^verbatim>\<open>_onAnswer\<close> (lines 126-161).\<close>

definition onAnswer :: "'n config \<Rightarrow> 'n option \<Rightarrow> string \<Rightarrow> 'n quiz \<Rightarrow> 'n quiz" where
  "onAnswer cfg v answer q =
     (if \<not> quizShown q \<or> quizCompleted q then q
      else if answer = correctAnswer cfg then
        (let q1 = showFeedback cfg ''CORRECT!!!'' q;
             q2 = (if hasVideo q1 v then q1\<lparr>calls := calls q1 @ [VideoPlay]\<rparr> else q1);
             q3 = (if audioSource q2 \<noteq> None then q2\<lparr>calls := calls q2 @ [AudioPlay]\<rparr> else q2);
             q4 = setButtonsActive cfg False q3
         in q4\<lparr>quizShown := False, quizCompleted := True\<rparr>)
      else showFeedback cfg '' Wrong answer, try again'' q)"

subsection \<open>Runs\<close>

text \<open>
  The host calls \<^verbatim>\<open>update\<close> once per frame and a click handler per click, one at a
  time. An event carries the video element as the call finds it.
\<close>

datatype 'n event = Tick "'n option" 'n | Click "'n option" string

fun step :: "('n::{plus,ord}) config \<Rightarrow> 'n event \<Rightarrow> 'n quiz \<Rightarrow> 'n quiz" where
  "step cfg (Tick v dt) q = update cfg v dt q"
| "step cfg (Click v answer) q = onAnswer cfg v answer q"

fun run :: "('n::{plus,ord}) config \<Rightarrow> 'n event list \<Rightarrow> 'n quiz \<Rightarrow> 'n quiz" where
  "run cfg [] q = q"
| "run cfg (e # es) q = run cfg es (step cfg e q)"

text \<open>A frame sequence: each tick with the video element it finds and its delta.\<close>

definition ticks :: "('n option \<times> 'n) list \<Rightarrow> 'n event list" where
  "ticks ts = map (\<lambda>(v, dt). Tick v dt) ts"

text \<open>How often a run moves from phase \<open>p\<close> to phase \<open>p'\<close> in one call.\<close>

fun transitions ::
  "('n::{plus,ord}) config \<Rightarrow> phase \<Rightarrow> phase \<Rightarrow> 'n event list \<Rightarrow> 'n quiz \<Rightarrow> nat" where
  "transitions cfg p p' [] q = 0"
| "transitions cfg p p' (e # es) q =
     (if phase q = p \<and> phase (step cfg e q) = p' then 1 else 0)
       + transitions cfg p p' es (step cfg e q)"

text \<open>
  The clock samples taken along a frame sequence, in order. A tick that returns at
  line 74 takes none.
\<close>

fun samples :: "('n::{plus,ord}) config \<Rightarrow> ('n option \<times> 'n) list \<Rightarrow> 'n quiz \<Rightarrow> 'n list" where
  "samples cfg [] q = []"
| "samples cfg ((v, dt) # ts) q =
     (if quizCompleted q \<or> quizShown q then samples cfg ts q
      else fst (sample q v dt) # samples cfg ts (update cfg v dt q))"

text \<open>The readings of the video element along a frame sequence, where it exists.\<close>

definition readings :: "('n option \<times> 'n) list \<Rightarrow> 'n list" where
  "readings ts = List.map_filter fst ts"

text \<open>
  The frame deltas added up from \<open>a\<close> in the order the ticks arrive, as
  \<^verbatim>\<open>this.elapsed += dt\<close> does.
\<close>

definition accumulated :: "('n::plus) \<Rightarrow> ('n option \<times> 'n) list \<Rightarrow> 'n" where
  "accumulated a ts = foldl (+) a (map snd ts)"


text \<open>A click on a letter other than the configured one.\<close>

fun wrongClick :: "'n config \<Rightarrow> 'n event \<Rightarrow> bool" where
  "wrongClick cfg (Tick v dt) = False"
| "wrongClick cfg (Click v answer) = (answer \<noteq> correctAnswer cfg)"

text \<open>The assigned answer buttons.\<close>

definition buttons :: "'n config \<Rightarrow> obj set" where
  "buttons cfg = set_option (buttonA cfg) \<union> set_option (buttonB cfg) \<union> set_option (buttonC cfg)"

text \<open>Every assigned button is visible exactly in phase \<open>Active\<close>.\<close>

definition buttonsTrackPhase :: "'n config \<Rightarrow> 'n quiz \<Rightarrow> bool" where
  "buttonsTrackPhase cfg q = (\<forall>b \<in> buttons cfg. active q b = (phase q = Active))"

subsection \<open>The presentation effects\<close>

text \<open>
  The presentation statements of the three branches, in the order the source runs them:
  lines 102 and 104 when the quiz appears, lines 136 and 149 on the correct answer,
  line 156 on a wrong one.
\<close>

definition reveal :: "'n config \<Rightarrow> 'n quiz \<Rightarrow> 'n quiz" where
  "reveal cfg q = showFeedback cfg '''' (setButtonsActive cfg True q)"

definition succeed :: "'n config \<Rightarrow> 'n quiz \<Rightarrow> 'n quiz" where
  "succeed cfg q = setButtonsActive cfg False (showFeedback cfg ''CORRECT!!!'' q)"

definition retry :: "'n config \<Rightarrow> 'n quiz \<Rightarrow> 'n quiz" where
  "retry cfg q = showFeedback cfg '' Wrong answer, try again'' q"

subsection \<open>A concrete scene\<close>

text \<open>
  Three buttons (objects 1, 2, 3), a feedback object (4) with text component 0, trigger
  time 3 and correct answer A, as the editor defaults have them, with real-valued times.
  \<open>exampleConfig\<close> has no video object, \<open>videoConfig\<close> has one (object 5, whose
  video-texture component is 1), \<open>bareConfig\<close> has neither video nor feedback object.
\<close>

definition exampleConfig :: "real config" where
  "exampleConfig =
     \<lparr>videoObject = None, quizTime = 3, buttonA = Some 1, buttonB = Some 2,
      buttonC = Some 3, correctAnswer = ''A'', feedbackObject = Some 4\<rparr>"

definition videoConfig :: "real config" where
  "videoConfig = exampleConfig\<lparr>videoObject := Some 5\<rparr>"

definition bareConfig :: "real config" where
  "bareConfig = exampleConfig\<lparr>feedbackObject := None\<rparr>"

definition exampleHost :: host where
  "exampleHost =
     \<lparr>videoTexture = (\<lambda>x. if x = 5 then Some 1 else None),
      textComponent = (\<lambda>x. if x = 4 then Some 0 else None)\<rparr>"

text \<open>The instance and scene before \<^verbatim>\<open>start\<close>: everything visible, no text, no call.\<close>

definition exampleScene :: "real quiz" where
  "exampleScene =
     \<lparr>quizShown = False, quizCompleted = False, elapsed = 0, videoComponent = None,
      feedbackText = None, audioSource = None, handlers = [], warnings = [],
      active = (\<lambda>x. True), textOf = (\<lambda>c. []), calls = []\<rparr>"

text \<open>
  The scenario of the specification: after \<^verbatim>\<open>start\<close>, after three ticks of one
  second (the quiz has appeared), and after the correct answer.
\<close>

definition exampleStarted :: "real quiz" where
  "exampleStarted = start exampleConfig exampleHost exampleScene"

definition exampleShown :: "real quiz" where
  "exampleShown = run exampleConfig [Tick None 1, Tick None 1, Tick None 1] exampleStarted"

definition exampleDone :: "real quiz" where
  "exampleDone = onAnswer exampleConfig None ''A'' exampleShown"

definition videoStarted :: "real quiz" where
  "videoStarted = start videoConfig exampleHost exampleScene"

definition bareStarted :: "real quiz" where
  "bareStarted = start bareConfig exampleHost exampleScene"

definition bareShown :: "real quiz" where
  "bareShown = run bareConfig [Tick None 3] bareStarted"

section \<open>Basic facts\<close>

subsection \<open>What the helpers write and what they leave alone\<close>

lemma setActive_fields [simp]:
  "quizShown (setActive x b q) = quizShown q"
  "quizCompleted (setActive x b q) = quizCompleted q"
  "elapsed (setActive x b q) = elapsed q"
  "videoComponent (setActive x b q) = videoComponent q"
  "feedbackText (setActive x b q) = feedbackText q"
  "audioSource (setActive x b q) = audioSource q"
  "handlers (setActive x b q) = handlers q"
  "warnings (setActive x b q) = warnings q"
  "textOf (setActive x b q) = textOf q"
  "calls (setActive x b q) = calls q"
  by (cases x; simp)+

lemma setActive_more [simp]: "quiz.more (setActive x b q) = quiz.more q"
  by (cases x) simp_all

lemma active_setActive:
  "active (setActive x b q) y = (if x = Some y then b else active q y)"
  by (cases x) auto

lemma setButtonsActive_fields [simp]:
  "quizShown (setButtonsActive cfg b q) = quizShown q"
  "quizCompleted (setButtonsActive cfg b q) = quizCompleted q"
  "elapsed (setButtonsActive cfg b q) = elapsed q"
  "videoComponent (setButtonsActive cfg b q) = videoComponent q"
  "feedbackText (setButtonsActive cfg b q) = feedbackText q"
  "audioSource (setButtonsActive cfg b q) = audioSource q"
  "handlers (setButtonsActive cfg b q) = handlers q"
  "warnings (setButtonsActive cfg b q) = warnings q"
  "textOf (setButtonsActive cfg b q) = textOf q"
  "calls (setButtonsActive cfg b q) = calls q"
  by (simp_all add: setButtonsActive_def)

lemma setButtonsActive_more [simp]: "quiz.more (setButtonsActive cfg b q) = quiz.more q"
  by (simp add: setButtonsActive_def)

lemma active_setButtonsActive:
  "active (setButtonsActive cfg b q) y = (if y \<in> buttons cfg then b else active q y)"
  by (auto simp: setButtonsActive_def buttons_def active_setActive)

lemma showFeedback_fields [simp]:
  "quizShown (showFeedback cfg t q) = quizShown q"
  "quizCompleted (showFeedback cfg t q) = quizCompleted q"
  "elapsed (showFeedback cfg t q) = elapsed q"
  "videoComponent (showFeedback cfg t q) = videoComponent q"
  "feedbackText (showFeedback cfg t q) = feedbackText q"
  "audioSource (showFeedback cfg t q) = audioSource q"
  "handlers (showFeedback cfg t q) = handlers q"
  "warnings (showFeedback cfg t q) = warnings q"
  "calls (showFeedback cfg t q) = calls q"
  by (simp_all add: showFeedback_def Let_def split: option.splits)

lemma showFeedback_more [simp]: "quiz.more (showFeedback cfg t q) = quiz.more q"
  by (simp add: showFeedback_def Let_def split: option.splits)

lemma active_showFeedback:
  "active (showFeedback cfg t q) y = (if feedbackObject cfg = Some y then True else active q y)"
  by (auto simp: showFeedback_def Let_def split: option.splits)

lemma textOf_showFeedback:
  "textOf (showFeedback cfg t q) c =
     (if feedbackObject cfg \<noteq> None \<and> feedbackText q = Some c then t else textOf q c)"
  by (auto simp: showFeedback_def Let_def split: option.splits)

lemma setupButton_fields [simp]:
  "quizShown (setupButton x a q) = quizShown q"
  "quizCompleted (setupButton x a q) = quizCompleted q"
  "elapsed (setupButton x a q) = elapsed q"
  "videoComponent (setupButton x a q) = videoComponent q"
  "feedbackText (setupButton x a q) = feedbackText q"
  "audioSource (setupButton x a q) = audioSource q"
  "active (setupButton x a q) = active q"
  "textOf (setupButton x a q) = textOf q"
  "calls (setupButton x a q) = calls q"
  by (cases x; simp)+

subsection \<open>The methods, field by field\<close>

lemma phase_flags:
  "phase q = Waiting \<longleftrightarrow> \<not> quizCompleted q \<and> \<not> quizShown q"
  "phase q = Active \<longleftrightarrow> \<not> quizCompleted q \<and> quizShown q"
  "phase q = Completed \<longleftrightarrow> quizCompleted q"
  by (simp_all add: phase_def)

lemma start_fields:
  "quizShown (start cfg h w) = False"
  "quizCompleted (start cfg h w) = False"
  "elapsed (start cfg h w) = 0"
  "videoComponent (start cfg h w) = (case videoObject cfg of None \<Rightarrow> None | Some vo \<Rightarrow> videoTexture h vo)"
  "feedbackText (start cfg h w) = (case feedbackObject cfg of None \<Rightarrow> None | Some f \<Rightarrow> textComponent h f)"
  "audioSource (start cfg h w) = audioSource w"
  "textOf (start cfg h w) = textOf w"
  "calls (start cfg h w) = calls w"
  by (simp_all add: start_def Let_def split: option.splits)

lemma start_active:
  "active (start cfg h w) y =
     (if y \<in> buttons cfg \<or> feedbackObject cfg = Some y then False else active w y)"
  by (auto simp: start_def Let_def active_setButtonsActive split: option.splits)

lemma sample_fields [simp]:
  "quizShown (snd (sample q v dt)) = quizShown q"
  "quizCompleted (snd (sample q v dt)) = quizCompleted q"
  "videoComponent (snd (sample q v dt)) = videoComponent q"
  "feedbackText (snd (sample q v dt)) = feedbackText q"
  "audioSource (snd (sample q v dt)) = audioSource q"
  "handlers (snd (sample q v dt)) = handlers q"
  "warnings (snd (sample q v dt)) = warnings q"
  "active (snd (sample q v dt)) = active q"
  "textOf (snd (sample q v dt)) = textOf q"
  "calls (snd (sample q v dt)) = calls q"
  by (simp_all add: sample_def split: option.splits)

lemma sample_video: "hasVideo q (Some t) \<Longrightarrow> sample q (Some t) dt = (t, q)"
  by (simp add: sample_def hasVideo_def)

lemma sample_fallback:
  "\<not> hasVideo q v \<Longrightarrow> sample q v dt = (elapsed q + dt, q\<lparr>elapsed := elapsed q + dt\<rparr>)"
  by (auto simp: sample_def hasVideo_def split: option.splits)

lemma update_skip: "quizCompleted q \<or> quizShown q \<Longrightarrow> update cfg v dt q = q"
  by (simp add: update_def)

lemma update_waiting:
  "\<not> quizCompleted q \<Longrightarrow> \<not> quizShown q \<Longrightarrow>
   update cfg v dt q =
     (if quizTime cfg \<le> fst (sample q v dt) then
        showFeedback cfg ''''
          (setButtonsActive cfg True
            (if hasVideo q v
             then (snd (sample q v dt))\<lparr>quizShown := True, calls := calls q @ [VideoPause]\<rparr>
             else (snd (sample q v dt))\<lparr>quizShown := True\<rparr>))
      else snd (sample q v dt))"
  by (simp add: update_def Let_def hasVideo_def split_beta)

lemma update_flags [simp]:
  "quizCompleted (update cfg v dt q) = quizCompleted q"
  "videoComponent (update cfg v dt q) = videoComponent q"
  "feedbackText (update cfg v dt q) = feedbackText q"
  "audioSource (update cfg v dt q) = audioSource q"
  "handlers (update cfg v dt q) = handlers q"
  "warnings (update cfg v dt q) = warnings q"
  by (cases "quizCompleted q \<or> quizShown q"; simp add: update_skip update_waiting)+

lemma update_shown:
  "quizShown (update cfg v dt q) =
     (quizShown q \<or> (\<not> quizCompleted q \<and> quizTime cfg \<le> fst (sample q v dt)))"
  by (cases "quizCompleted q \<or> quizShown q") (auto simp: update_skip update_waiting)

lemma update_calls:
  "calls (update cfg v dt q) =
     calls q @
       (if \<not> quizCompleted q \<and> \<not> quizShown q \<and> quizTime cfg \<le> fst (sample q v dt)
           \<and> hasVideo q v
        then [VideoPause] else [])"
  by (cases "quizCompleted q \<or> quizShown q") (auto simp: update_skip update_waiting)

lemma update_active:
  "active (update cfg v dt q) y =
     (if \<not> quizCompleted q \<and> \<not> quizShown q \<and> quizTime cfg \<le> fst (sample q v dt)
      then (if feedbackObject cfg = Some y \<or> y \<in> buttons cfg then True else active q y)
      else active q y)"
  by (cases "quizCompleted q \<or> quizShown q")
     (auto simp: update_skip update_waiting active_setButtonsActive active_showFeedback)

lemma update_elapsed:
  "elapsed (update cfg v dt q) =
     (if \<not> quizCompleted q \<and> \<not> quizShown q \<and> \<not> hasVideo q v
      then elapsed q + dt else elapsed q)"
  by (cases "quizCompleted q \<or> quizShown q")
     (auto simp: update_skip update_waiting sample_def hasVideo_def split: option.splits)

lemma update_textOf:
  "textOf (update cfg v dt q) c =
     (if \<not> quizCompleted q \<and> \<not> quizShown q \<and> quizTime cfg \<le> fst (sample q v dt)
         \<and> feedbackObject cfg \<noteq> None \<and> feedbackText q = Some c
      then '''' else textOf q c)"
  by (cases "quizCompleted q \<or> quizShown q")
     (auto simp: update_skip update_waiting textOf_showFeedback)

lemma onAnswer_skip: "\<not> quizShown q \<or> quizCompleted q \<Longrightarrow> onAnswer cfg v a q = q"
  by (simp add: onAnswer_def)

lemma onAnswer_wrong:
  "quizShown q \<Longrightarrow> \<not> quizCompleted q \<Longrightarrow> a \<noteq> correctAnswer cfg \<Longrightarrow>
   onAnswer cfg v a q = showFeedback cfg '' Wrong answer, try again'' q"
  by (simp add: onAnswer_def)

lemma onAnswer_flags [simp]:
  "elapsed (onAnswer cfg v a q) = elapsed q"
  "videoComponent (onAnswer cfg v a q) = videoComponent q"
  "feedbackText (onAnswer cfg v a q) = feedbackText q"
  "audioSource (onAnswer cfg v a q) = audioSource q"
  "handlers (onAnswer cfg v a q) = handlers q"
  "warnings (onAnswer cfg v a q) = warnings q"
  by (simp_all add: onAnswer_def Let_def)

lemma onAnswer_more [simp]: "quiz.more (onAnswer cfg v a q) = quiz.more q"
  by (simp add: onAnswer_def Let_def)

lemma onAnswer_completed:
  "quizCompleted (onAnswer cfg v a q) =
     (quizCompleted q \<or> (quizShown q \<and> a = correctAnswer cfg))"
  by (auto simp: onAnswer_def Let_def)

lemma onAnswer_shown:
  "quizShown (onAnswer cfg v a q) =
     (quizShown q \<and> (quizCompleted q \<or> a \<noteq> correctAnswer cfg))"
  by (auto simp: onAnswer_def Let_def)

lemma onAnswer_calls:
  "calls (onAnswer cfg v a q) =
     calls q @
       (if quizShown q \<and> \<not> quizCompleted q \<and> a = correctAnswer cfg
        then (if hasVideo q v then [VideoPlay] else [])
               @ (if audioSource q \<noteq> None then [AudioPlay] else [])
        else [])"
  by (auto simp: onAnswer_def Let_def hasVideo_def)

lemma onAnswer_active:
  "active (onAnswer cfg v a q) y =
     (if quizShown q \<and> \<not> quizCompleted q
      then (if a = correctAnswer cfg \<and> y \<in> buttons cfg then False
            else if feedbackObject cfg = Some y then True else active q y)
      else active q y)"
  by (auto simp: onAnswer_def Let_def active_setButtonsActive active_showFeedback)

lemma onAnswer_textOf:
  "textOf (onAnswer cfg v a q) c =
     (if quizShown q \<and> \<not> quizCompleted q \<and> feedbackObject cfg \<noteq> None
         \<and> feedbackText q = Some c
      then (if a = correctAnswer cfg then ''CORRECT!!!'' else '' Wrong answer, try again'')
      else textOf q c)"
  by (auto simp: onAnswer_def Let_def textOf_showFeedback)

text \<open>
  The two branches that change the phase, written with the presentation effects: the
  state after the call is the effect applied to the state with its flags and media calls
  updated.
\<close>

lemma update_is_reveal:
  "phase q = Waiting \<Longrightarrow> quizTime cfg \<le> fst (sample q v dt) \<Longrightarrow>
   update cfg v dt q =
     reveal cfg ((snd (sample q v dt))
        \<lparr>quizShown := True,
          calls := calls q @ (if hasVideo q v then [VideoPause] else [])\<rparr>)"
  by (rule quiz.equality)
     (simp_all add: phase_flags update_waiting reveal_def fun_eq_iff active_showFeedback
        active_setButtonsActive textOf_showFeedback)

lemma onAnswer_is_succeed:
  "phase q = Active \<Longrightarrow>
   onAnswer cfg v (correctAnswer cfg) q =
     (succeed cfg q)
        \<lparr>quizShown := False, quizCompleted := True,
          calls := calls q @ (if hasVideo q v then [VideoPlay] else [])
                    @ (if audioSource q \<noteq> None then [AudioPlay] else [])\<rparr>"
  by (rule quiz.equality)
     (simp_all add: phase_flags onAnswer_calls onAnswer_completed onAnswer_shown succeed_def
        fun_eq_iff onAnswer_active onAnswer_textOf active_showFeedback
        active_setButtonsActive textOf_showFeedback)

subsection \<open>Runs\<close>

lemma run_append: "run cfg (es @ es') q = run cfg es' (run cfg es q)"
  by (induction es arbitrary: q) simp_all

lemma ticks_simps [simp]:
  "ticks [] = []"
  "ticks ((v, dt) # ts) = Tick v dt # ticks ts"
  "ticks (ts @ ts') = ticks ts @ ticks ts'"
  by (simp_all add: ticks_def)

lemma step_completed: "quizCompleted q \<Longrightarrow> step cfg e q = q"
  by (cases e) (simp_all add: update_skip onAnswer_skip)

lemma run_completed: "quizCompleted q \<Longrightarrow> run cfg es q = q"
  by (induction es) (simp_all add: step_completed)

lemma step_leaves_waiting: "phase q \<noteq> Waiting \<Longrightarrow> phase (step cfg e q) \<noteq> Waiting"
  by (cases e) (auto simp: phase_flags update_shown onAnswer_shown onAnswer_completed)


lemma run_videoComponent: "videoComponent (run cfg es q) = videoComponent q"
proof (induction es arbitrary: q)
  case Nil
  show ?case by simp
next
  case (Cons e es)
  then show ?case by (cases e) simp_all
qed

lemma hasVideo_run [simp]: "hasVideo (run cfg es q) v = hasVideo q v"
  by (simp add: hasVideo_def run_videoComponent)

lemma hasVideo_update [simp]: "hasVideo (update cfg v' dt q) v = hasVideo q v"
  by (simp add: hasVideo_def)

lemma step_audioSource: "audioSource (step cfg e q) = audioSource q"
  by (cases e) simp_all

lemma run_audioSource: "audioSource (run cfg es q) = audioSource q"
  by (induction es arbitrary: q) (simp_all add: step_audioSource)

subsection \<open>Button visibility follows the phase\<close>

lemma start_tracks: "buttonsTrackPhase cfg (start cfg h w)"
  by (simp add: buttonsTrackPhase_def phase_flags start_fields start_active)

lemma step_tracks: "buttonsTrackPhase cfg q \<Longrightarrow> buttonsTrackPhase cfg (step cfg e q)"
  by (cases e)
     (auto simp: buttonsTrackPhase_def phase_flags update_active update_shown
        onAnswer_active onAnswer_shown onAnswer_completed)

lemma run_tracks: "buttonsTrackPhase cfg q \<Longrightarrow> buttonsTrackPhase cfg (run cfg es q)"
  by (induction es arbitrary: q) (simp_all add: step_tracks)

subsection \<open>Counting phase changes\<close>

lemma transitions_after_waiting:
  "phase q \<noteq> Waiting \<Longrightarrow> transitions cfg Waiting Active es q = 0"
proof (induction es arbitrary: q)
  case Nil
  show ?case by simp
next
  case (Cons e es)
  from Cons.prems have "phase (step cfg e q) \<noteq> Waiting"
    by (rule step_leaves_waiting)
  with Cons.prems Cons.IH show ?case by simp
qed

lemma transitions_reveal_le: "transitions cfg Waiting Active es q \<le> 1"
proof (induction es arbitrary: q)
  case Nil
  show ?case by simp
next
  case (Cons e es)
  show ?case
  proof (cases "phase q = Waiting \<and> phase (step cfg e q) = Active")
    case True
    then have "transitions cfg Waiting Active es (step cfg e q) = 0"
      by (simp add: transitions_after_waiting)
    with True show ?thesis by simp
  next
    case False
    with Cons.IH [of "step cfg e q"] show ?thesis by auto
  qed
qed

lemma transitions_after_completed:
  "quizCompleted q \<Longrightarrow> transitions cfg Active Completed es q = 0"
  by (induction es) (simp_all add: step_completed phase_flags)

lemma transitions_success_le: "transitions cfg Active Completed es q \<le> 1"
proof (induction es arbitrary: q)
  case Nil
  show ?case by simp
next
  case (Cons e es)
  show ?case
  proof (cases "phase q = Active \<and> phase (step cfg e q) = Completed")
    case True
    then have "quizCompleted (step cfg e q)" by (simp add: phase_flags)
    then have "transitions cfg Active Completed es (step cfg e q) = 0"
      by (rule transitions_after_completed)
    with True show ?thesis by simp
  next
    case False
    with Cons.IH [of "step cfg e q"] show ?thesis by auto
  qed
qed

lemma step_plays:
  "count_list (calls (step cfg e q)) VideoPlay
     \<le> count_list (calls q) VideoPlay
         + (if phase q = Active \<and> phase (step cfg e q) = Completed then 1 else 0)"
  by (cases e)
     (auto simp: phase_flags update_calls onAnswer_calls onAnswer_completed)

lemma run_plays:
  "count_list (calls (run cfg es q)) VideoPlay
     \<le> count_list (calls q) VideoPlay + transitions cfg Active Completed es q"
proof (induction es arbitrary: q)
  case Nil
  show ?case by simp
next
  case (Cons e es)
  have "count_list (calls (run cfg es (step cfg e q))) VideoPlay
          \<le> count_list (calls (step cfg e q)) VideoPlay
              + transitions cfg Active Completed es (step cfg e q)"
    by (rule Cons.IH)
  with step_plays [of cfg e q] show ?case by simp
qed

subsection \<open>Wrong answers\<close>

lemma wrong_run:
  "phase q = Active \<Longrightarrow> list_all (wrongClick cfg) es \<Longrightarrow>
   run cfg es q = (retry cfg ^^ length es) q \<and> phase (run cfg es q) = Active
   \<and> calls (run cfg es q) = calls q"
proof (induction es arbitrary: q)
  case Nil
  then show ?case by simp
next
  case (Cons e es)
  from Cons.prems obtain v a where e: "e = Click v a" and a: "a \<noteq> correctAnswer cfg"
    by (cases e) auto
  from Cons.prems have s: "step cfg e q = retry cfg q"
    by (simp add: e a retry_def onAnswer_wrong phase_flags)
  from Cons.prems have p: "phase (retry cfg q) = Active"
    by (simp add: retry_def phase_flags)
  from Cons.prems have r: "list_all (wrongClick cfg) es" by simp
  from Cons.IH [OF p r]
  have i1: "run cfg es (retry cfg q) = (retry cfg ^^ length es) (retry cfg q)"
    and i2: "phase (run cfg es (retry cfg q)) = Active"
    and i3: "calls (run cfg es (retry cfg q)) = calls (retry cfg q)"
    by blast+
  have "run cfg (e # es) q = (retry cfg ^^ length (e # es)) q"
    by (simp add: s i1 funpow_swap1)
  moreover have "phase (run cfg (e # es) q) = Active"
    by (simp add: s i2)
  moreover have "calls (run cfg (e # es) q) = calls q"
    by (simp add: s i3) (simp add: retry_def)
  ultimately show ?case by blast
qed

subsection \<open>Applying an effect twice\<close>

lemma setButtonsActive_twice:
  "setButtonsActive cfg b (setButtonsActive cfg b q) = setButtonsActive cfg b q"
  by (rule quiz.equality) (simp_all add: fun_eq_iff active_setButtonsActive)

lemma showFeedback_twice:
  "showFeedback cfg t (showFeedback cfg t q) = showFeedback cfg t q"
  by (rule quiz.equality) (simp_all add: fun_eq_iff active_showFeedback textOf_showFeedback)

lemma reveal_twice: "reveal cfg (reveal cfg q) = reveal cfg q"
  unfolding reveal_def
  by (rule quiz.equality)
     (simp_all add: fun_eq_iff active_showFeedback active_setButtonsActive textOf_showFeedback)

lemma succeed_twice: "succeed cfg (succeed cfg q) = succeed cfg q"
  unfolding succeed_def
  by (rule quiz.equality)
     (simp_all add: fun_eq_iff active_showFeedback active_setButtonsActive textOf_showFeedback)

subsection \<open>The audio branch\<close>

lemma step_no_audio:
  "audioSource q = None \<Longrightarrow>
   count_list (calls (step cfg e q)) AudioPlay = count_list (calls q) AudioPlay"
  by (cases e) (simp_all add: update_calls onAnswer_calls)

lemma run_no_audio:
  "audioSource q = None \<Longrightarrow>
   count_list (calls (run cfg es q)) AudioPlay = count_list (calls q) AudioPlay"
  by (induction es arbitrary: q) (simp_all add: step_no_audio step_audioSource)

subsection \<open>The fallback timer\<close>

lemma accumulated_simps [simp]:
  "accumulated a [] = a"
  "accumulated a ((v, dt) # ts) = accumulated (a + dt) ts"
  "accumulated a (ts @ [(v, dt)]) = accumulated a ts + dt"
  by (simp_all add: accumulated_def)










subsection \<open>Clock samples\<close>

lemma samples_after_waiting: "quizCompleted q \<or> quizShown q \<Longrightarrow> samples cfg ts q = []"
proof (induction ts)
  case Nil
  show ?case by simp
next
  case (Cons t ts)
  then show ?case by (cases t) simp
qed

lemma fallback_samples_sorted:
  "\<forall>t \<in> set ts. \<not> hasVideo q (fst t) \<and> 0 \<le> snd t \<Longrightarrow>
   sorted (samples cfg ts q) \<and> (\<forall>s \<in> set (samples cfg ts q). elapsed q \<le> s)"
  for q :: "('n :: {linorder,ordered_comm_monoid_add}) quiz"
proof (induction ts arbitrary: q)
  case Nil
  show ?case by simp
next
  case (Cons t ts)
  obtain v dt where t: "t = (v, dt)" by (cases t)
  show ?case
  proof (cases "quizCompleted q \<or> quizShown q")
    case True
    then show ?thesis by (simp add: samples_after_waiting)
  next
    case False
    from Cons.prems have nv: "\<not> hasVideo q v" and dt: "0 \<le> dt" by (simp_all add: t)
    from dt have up: "elapsed q \<le> elapsed q + dt" by (simp add: add_increasing2)
    from Cons.prems have "\<forall>t \<in> set ts. \<not> hasVideo (update cfg v dt q) (fst t) \<and> 0 \<le> snd t"
      by simp
    from Cons.IH [OF this] False nv
    have ih: "sorted (samples cfg ts (update cfg v dt q))"
      "\<forall>s \<in> set (samples cfg ts (update cfg v dt q)). elapsed q + dt \<le> s"
      by (simp_all add: update_elapsed)
    from ih(2) up have "\<forall>s \<in> set (samples cfg ts (update cfg v dt q)). elapsed q \<le> s"
      by (blast intro: order_trans)
    with False nv up ih show ?thesis
      by (simp add: t sample_fallback)
  qed
qed

lemma video_samples_prefix:
  "\<forall>t \<in> set ts. hasVideo q (fst t) \<Longrightarrow> \<exists>n. samples cfg ts q = take n (readings ts)"
proof (induction ts arbitrary: q)
  case Nil
  show ?case by simp
next
  case (Cons t ts)
  from Cons.prems obtain c dt where t: "t = (Some c, dt)" and hv: "hasVideo q (Some c)"
    by (cases t) (auto simp: hasVideo_def)
  have rd: "readings ((Some c, dt) # ts) = c # readings ts"
    by (simp add: readings_def map_filter_simps)
  show ?case
  proof (cases "quizCompleted q \<or> quizShown q")
    case True
    then have "samples cfg (t # ts) q = take 0 (readings (t # ts))"
      by (simp add: samples_after_waiting)
    then show ?thesis by blast
  next
    case False
    from Cons.prems have "\<forall>t \<in> set ts. hasVideo (update cfg (Some c) dt q) (fst t)"
      by simp
    from Cons.IH [OF this] obtain n
      where "samples cfg ts (update cfg (Some c) dt q) = take n (readings ts)" ..
    with False hv have "samples cfg (t # ts) q = take (Suc n) (readings (t # ts))"
      by (simp add: t rd sample_video)
    then show ?thesis by blast
  qed
qed

lemma video_samples_sorted:
  "\<forall>t \<in> set ts. hasVideo q (fst t) \<Longrightarrow> sorted (readings ts) \<Longrightarrow> sorted (samples cfg ts q)"
  for q :: "('n :: {linorder,plus}) quiz"
proof -
  assume "\<forall>t \<in> set ts. hasVideo q (fst t)" and s: "sorted (readings ts)"
  then obtain n where "samples cfg ts q = take n (readings ts)"
    using video_samples_prefix by blast
  with s show ?thesis by (simp add: sorted_wrt_take)
qed

subsection \<open>The concrete scene\<close>

lemma exampleConfig_fields:
  "quizTime exampleConfig = 3" "correctAnswer exampleConfig = ''A''"
  "videoObject exampleConfig = None" "feedbackObject exampleConfig = Some 4"
  "buttons exampleConfig = {1, 2, 3}"
  by (auto simp: exampleConfig_def buttons_def)

lemma exampleStarted_fields:
  "quizShown exampleStarted = False" "quizCompleted exampleStarted = False"
  "elapsed exampleStarted = 0" "videoComponent exampleStarted = None"
  "feedbackText exampleStarted = Some 0" "audioSource exampleStarted = None"
  "calls exampleStarted = []" "phase exampleStarted = Waiting"
  by (simp_all add: exampleStarted_def phase_flags start_fields exampleConfig_fields
      exampleHost_def exampleScene_def)

lemma exampleTwo_fields:
  "quizShown (run exampleConfig [Tick None 1, Tick None 1] exampleStarted) = False"
  "quizCompleted (run exampleConfig [Tick None 1, Tick None 1] exampleStarted) = False"
  "elapsed (run exampleConfig [Tick None 1, Tick None 1] exampleStarted) = 2"
  "phase (run exampleConfig [Tick None 1, Tick None 1] exampleStarted) = Waiting"
  by (simp_all add: phase_flags update_shown update_elapsed exampleStarted_fields
      exampleConfig_fields sample_def hasVideo_def)

lemma exampleShown_fields:
  "quizShown exampleShown = True" "quizCompleted exampleShown = False"
  "elapsed exampleShown = 3" "videoComponent exampleShown = None"
  "feedbackText exampleShown = Some 0" "audioSource exampleShown = None"
  "calls exampleShown = []" "phase exampleShown = Active"
  by (simp_all add: exampleShown_def phase_flags update_shown update_elapsed update_calls
      exampleStarted_fields exampleConfig_fields sample_def hasVideo_def)

lemma exampleDone_fields:
  "quizShown exampleDone = False" "quizCompleted exampleDone = True"
  "calls exampleDone = []" "phase exampleDone = Completed"
  by (simp_all add: exampleDone_def phase_flags onAnswer_shown onAnswer_completed
      onAnswer_calls exampleShown_fields exampleConfig_fields hasVideo_def)

lemma bareConfig_fields:
  "quizTime bareConfig = 3" "correctAnswer bareConfig = ''A''"
  "videoObject bareConfig = None" "feedbackObject bareConfig = None"
  "buttons bareConfig = {1, 2, 3}"
  by (auto simp: bareConfig_def exampleConfig_def buttons_def)

lemma videoStarted_fields:
  "quizShown videoStarted = False" "quizCompleted videoStarted = False"
  "elapsed videoStarted = 0" "videoComponent videoStarted = Some 1"
  "quizTime videoConfig = 3" "phase videoStarted = Waiting"
  by (simp_all add: videoStarted_def phase_flags start_fields videoConfig_def
      exampleConfig_def exampleHost_def)

lemma bareStarted_fields:
  "quizShown bareStarted = False" "quizCompleted bareStarted = False"
  "elapsed bareStarted = 0" "videoComponent bareStarted = None"
  "feedbackText bareStarted = None" "audioSource bareStarted = None"
  "calls bareStarted = []" "phase bareStarted = Waiting"
  by (simp_all add: bareStarted_def phase_flags start_fields bareConfig_fields exampleScene_def)

lemma bareShown_fields:
  "quizShown bareShown = True" "quizCompleted bareShown = False"
  "videoComponent bareShown = None" "feedbackText bareShown = None"
  "audioSource bareShown = None" "calls bareShown = []" "phase bareShown = Active"
  by (simp_all add: bareShown_def phase_flags update_shown update_calls
      bareStarted_fields bareConfig_fields sample_def hasVideo_def)

lemma exampleStarted_scene:
  "active exampleStarted 1 = False" "active exampleStarted 2 = False"
  "active exampleStarted 3 = False" "active exampleStarted 4 = False"
  "textOf exampleStarted 0 = []"
  by (simp_all add: exampleStarted_def start_active start_fields exampleConfig_fields
      exampleScene_def)

text \<open>
  The scenario of the specification: after three ticks of one second the quiz is active,
  the buttons and the feedback object are visible and the text is empty; B keeps it active
  and shows the retry message; A completes it, shows the success message and hides the
  buttons; a further A changes nothing.
\<close>

lemma scenario:
  "phase exampleShown = Active
   \<and> active exampleShown 1 \<and> active exampleShown 2 \<and> active exampleShown 3
   \<and> active exampleShown 4 \<and> textOf exampleShown 0 = ''''
   \<and> phase (onAnswer exampleConfig None ''B'' exampleShown) = Active
   \<and> textOf (onAnswer exampleConfig None ''B'' exampleShown) 0 = '' Wrong answer, try again''
   \<and> active (onAnswer exampleConfig None ''B'' exampleShown) 1
   \<and> phase (onAnswer exampleConfig None ''A'' (onAnswer exampleConfig None ''B'' exampleShown))
       = Completed
   \<and> textOf (onAnswer exampleConfig None ''A'' (onAnswer exampleConfig None ''B'' exampleShown)) 0
       = ''CORRECT!!!''
   \<and> \<not> active (onAnswer exampleConfig None ''A''
                  (onAnswer exampleConfig None ''B'' exampleShown)) 1
   \<and> onAnswer exampleConfig None ''A''
         (onAnswer exampleConfig None ''A'' (onAnswer exampleConfig None ''B'' exampleShown))
       = onAnswer exampleConfig None ''A'' (onAnswer exampleConfig None ''B'' exampleShown)"
  by (simp add: exampleShown_def phase_flags update_shown update_elapsed update_active
      update_textOf onAnswer_shown onAnswer_completed onAnswer_active onAnswer_textOf
      onAnswer_skip exampleStarted_fields exampleStarted_scene exampleConfig_fields
      sample_def hasVideo_def)

section \<open>Claims\<close>

subsection \<open>The trigger\<close>

text \<open>
  Claim C1. Along every sequence of calls, ticks with non-decreasing clock samples
  included, the phase moves from \<open>Waiting\<close> to \<open>Active\<close> at most once. A tick that
  makes this move took a clock sample that is at least the trigger time. In every phase
  other than \<open>Waiting\<close> \<^verbatim>\<open>update\<close> returns the state unchanged.
\<close>

theorem reveal_at_most_once:
  "transitions cfg Waiting Active es q \<le> 1
   \<and> (phase q = Waiting \<and> phase (update cfg v dt q) = Active
        \<longrightarrow> quizTime cfg \<le> fst (sample q v dt))
   \<and> (phase q \<noteq> Waiting \<longrightarrow> update cfg v dt q = q)"
  using transitions_reveal_le [of cfg es q]
  by (auto simp: phase_flags update_skip update_shown)

theorem reveal_at_most_once_witness:
  "transitions exampleConfig Waiting Active
      [Tick None 1, Tick None 1, Tick None 1, Tick None 1] exampleStarted \<le> 1
   \<and> phase (run exampleConfig [Tick None 1, Tick None 1] exampleStarted) = Waiting
   \<and> phase (update exampleConfig None 1
               (run exampleConfig [Tick None 1, Tick None 1] exampleStarted)) = Active
   \<and> quizTime exampleConfig
        \<le> fst (sample (run exampleConfig [Tick None 1, Tick None 1] exampleStarted) None 1)
   \<and> phase exampleShown \<noteq> Waiting
   \<and> update exampleConfig None 1 exampleShown = exampleShown"
proof -
  let ?two = "run exampleConfig [Tick None 1, Tick None 1] exampleStarted"
  have w: "phase ?two = Waiting" by (rule exampleTwo_fields)
  have a: "phase (update exampleConfig None 1 ?two) = Active"
    using exampleShown_fields(8) by (simp add: exampleShown_def)
  have s: "phase exampleShown \<noteq> Waiting" by (simp add: exampleShown_fields)
  from reveal_at_most_once
         [of exampleConfig "[Tick None 1, Tick None 1, Tick None 1, Tick None 1]"
             exampleStarted]
  have c: "transitions exampleConfig Waiting Active
      [Tick None 1, Tick None 1, Tick None 1, Tick None 1] exampleStarted \<le> 1"
    by blast
  from reveal_at_most_once [of exampleConfig "[]" ?two None 1] w a
  have t: "quizTime exampleConfig \<le> fst (sample ?two None 1)" by blast
  from reveal_at_most_once [of exampleConfig "[]" exampleShown None 1] s
  have n: "update exampleConfig None 1 exampleShown = exampleShown" by blast
  from c w a t s n show ?thesis by blast
qed

subsection \<open>Success happens once\<close>

text \<open>
  Claim C2. A correct answer in phase \<open>Active\<close> completes the quiz. From then on every
  click, with the correct letter or another, and indeed every run of ticks and clicks,
  returns the very same state: the phase stays \<open>Completed\<close> and no text, visibility
  flag or media call changes. Along every run the phase moves from \<open>Active\<close> to
  \<open>Completed\<close> at most once, and at most one \<^verbatim>\<open>video.play()\<close> is added to the
  media calls.
\<close>

theorem success_at_most_once:
  "(phase q = Active \<longrightarrow>
      phase (onAnswer cfg v (correctAnswer cfg) q) = Completed
      \<and> onAnswer cfg v' answer (onAnswer cfg v (correctAnswer cfg) q)
          = onAnswer cfg v (correctAnswer cfg) q
      \<and> run cfg es (onAnswer cfg v (correctAnswer cfg) q)
          = onAnswer cfg v (correctAnswer cfg) q)
   \<and> transitions cfg Active Completed es q \<le> 1
   \<and> count_list (calls (run cfg es q)) VideoPlay \<le> count_list (calls q) VideoPlay + 1"
proof -
  have a: "phase q = Active \<Longrightarrow> quizCompleted (onAnswer cfg v (correctAnswer cfg) q)"
    by (simp add: phase_flags onAnswer_completed)
  have b: "transitions cfg Active Completed es q \<le> 1"
    by (rule transitions_success_le)
  have c: "count_list (calls (run cfg es q)) VideoPlay \<le> count_list (calls q) VideoPlay + 1"
    using run_plays [of cfg es q] b by linarith
  show ?thesis
    using a b c by (auto simp: phase_flags onAnswer_skip run_completed)
qed

theorem success_at_most_once_witness:
  "phase exampleShown = Active
   \<and> phase (onAnswer exampleConfig None ''A'' exampleShown) = Completed
   \<and> onAnswer exampleConfig None ''B'' (onAnswer exampleConfig None ''A'' exampleShown)
       = onAnswer exampleConfig None ''A'' exampleShown
   \<and> onAnswer exampleConfig None ''A'' (onAnswer exampleConfig None ''A'' exampleShown)
       = onAnswer exampleConfig None ''A'' exampleShown
   \<and> run exampleConfig [Click None ''A'', Tick None 1, Click None ''C'']
         (onAnswer exampleConfig None ''A'' exampleShown)
       = onAnswer exampleConfig None ''A'' exampleShown
   \<and> transitions exampleConfig Active Completed
         [Click None ''B'', Click None ''A'', Click None ''A''] exampleShown \<le> 1"
proof -
  have act: "phase exampleShown = Active" by (rule exampleShown_fields)
  note inst = success_at_most_once [of exampleShown exampleConfig None, unfolded exampleConfig_fields]
  from inst [of None "''B''" "[Click None ''A'', Tick None 1, Click None ''C'']"] act
  have 1: "phase (onAnswer exampleConfig None ''A'' exampleShown) = Completed"
    and 2: "onAnswer exampleConfig None ''B'' (onAnswer exampleConfig None ''A'' exampleShown)
       = onAnswer exampleConfig None ''A'' exampleShown"
    and 3: "run exampleConfig [Click None ''A'', Tick None 1, Click None ''C'']
         (onAnswer exampleConfig None ''A'' exampleShown)
       = onAnswer exampleConfig None ''A'' exampleShown"
    by blast+
  from inst [of None "''A''" "[Click None ''B'', Click None ''A'', Click None ''A'']"] act
  have 4: "onAnswer exampleConfig None ''A'' (onAnswer exampleConfig None ''A'' exampleShown)
       = onAnswer exampleConfig None ''A'' exampleShown"
    and 5: "transitions exampleConfig Active Completed
         [Click None ''B'', Click None ''A'', Click None ''A''] exampleShown \<le> 1"
    by blast+
  from act 1 2 3 4 5 show ?thesis by blast
qed

subsection \<open>Clicks outside the active phase\<close>

text \<open>
  Claim C3. For every label, a click delivered while the phase is \<open>Waiting\<close> or
  \<open>Completed\<close> is dropped: the whole state after the call (flags, timer, visibility of
  every object, every text, the media calls, handlers and warnings) is the state before
  it, so the phase does not change and nothing is emitted.
\<close>

theorem onAnswer_outside_active_dropped:
  "phase q = Waiting \<or> phase q = Completed \<Longrightarrow> onAnswer cfg v answer q = q"
  by (auto simp: phase_flags onAnswer_skip)

theorem onAnswer_outside_active_dropped_witness:
  "phase exampleStarted = Waiting
   \<and> onAnswer exampleConfig None ''A'' exampleStarted = exampleStarted
   \<and> phase exampleDone = Completed
   \<and> onAnswer exampleConfig None ''A'' exampleDone = exampleDone
   \<and> onAnswer exampleConfig None ''B'' exampleDone = exampleDone"
  using exampleStarted_fields(8) exampleDone_fields(4)
    onAnswer_outside_active_dropped [of exampleStarted exampleConfig None "''A''"]
    onAnswer_outside_active_dropped [of exampleDone exampleConfig None "''A''"]
    onAnswer_outside_active_dropped [of exampleDone exampleConfig None "''B''"]
  by simp

subsection \<open>The fallback timer accumulates the frame deltas\<close>



subsection \<open>Wrong answers\<close>

text \<open>
  Claim C5. A click on a wrong letter in phase \<open>Active\<close> does exactly what
  \<^verbatim>\<open>_showFeedback\<close> does with the retry message: the phase stays \<open>Active\<close>, no
  media call is made, and the text component of the feedback object, where there is one,
  reads the retry message. For a state reached from \<^verbatim>\<open>start\<close> in which the quiz is
  active, any sequence of wrong clicks is the retry effect applied once per click; the
  phase is \<open>Active\<close> after it, the media calls are as before, and every assigned button
  is visible before and after.
\<close>

theorem wrong_answers_retry:
  "(phase q = Active \<and> answer \<noteq> correctAnswer cfg \<longrightarrow>
      onAnswer cfg v answer q = retry cfg q
      \<and> phase (onAnswer cfg v answer q) = Active
      \<and> calls (onAnswer cfg v answer q) = calls q
      \<and> (feedbackObject cfg \<noteq> None \<and> feedbackText q = Some c \<longrightarrow>
            textOf (onAnswer cfg v answer q) c = '' Wrong answer, try again''))
   \<and> (phase (run cfg pre (start cfg h w)) = Active \<and> list_all (wrongClick cfg) es \<longrightarrow>
        run cfg (pre @ es) (start cfg h w) = (retry cfg ^^ length es) (run cfg pre (start cfg h w))
        \<and> phase (run cfg (pre @ es) (start cfg h w)) = Active
        \<and> calls (run cfg (pre @ es) (start cfg h w)) = calls (run cfg pre (start cfg h w))
        \<and> (\<forall>b \<in> buttons cfg. active (run cfg pre (start cfg h w)) b
                                \<and> active (run cfg (pre @ es) (start cfg h w)) b))"
proof -
  have one: "phase q = Active \<and> answer \<noteq> correctAnswer cfg \<longrightarrow>
      onAnswer cfg v answer q = retry cfg q
      \<and> phase (onAnswer cfg v answer q) = Active
      \<and> calls (onAnswer cfg v answer q) = calls q
      \<and> (feedbackObject cfg \<noteq> None \<and> feedbackText q = Some c \<longrightarrow>
            textOf (onAnswer cfg v answer q) c = '' Wrong answer, try again'')"
    by (simp add: phase_flags onAnswer_wrong retry_def textOf_showFeedback)
  have many: "run cfg (pre @ es) (start cfg h w) = (retry cfg ^^ length es) (run cfg pre (start cfg h w))
        \<and> phase (run cfg (pre @ es) (start cfg h w)) = Active
        \<and> calls (run cfg (pre @ es) (start cfg h w)) = calls (run cfg pre (start cfg h w))
        \<and> (\<forall>b \<in> buttons cfg. active (run cfg pre (start cfg h w)) b
                                \<and> active (run cfg (pre @ es) (start cfg h w)) b)"
    if act: "phase (run cfg pre (start cfg h w)) = Active" and wr: "list_all (wrongClick cfg) es"
  proof -
    have r: "run cfg (pre @ es) (start cfg h w) = (retry cfg ^^ length es) (run cfg pre (start cfg h w))
        \<and> phase (run cfg (pre @ es) (start cfg h w)) = Active
        \<and> calls (run cfg (pre @ es) (start cfg h w)) = calls (run cfg pre (start cfg h w))"
      using wrong_run [OF act wr] unfolding run_append .
    have t0: "buttonsTrackPhase cfg (run cfg pre (start cfg h w))"
      by (rule run_tracks [OF start_tracks])
    have t1: "buttonsTrackPhase cfg (run cfg (pre @ es) (start cfg h w))"
      by (rule run_tracks [OF start_tracks])
    from r have act': "phase (run cfg (pre @ es) (start cfg h w)) = Active" by blast
    from t0 act have v0: "\<forall>b \<in> buttons cfg. active (run cfg pre (start cfg h w)) b"
      by (simp add: buttonsTrackPhase_def)
    from t1 act' have v1: "\<forall>b \<in> buttons cfg. active (run cfg (pre @ es) (start cfg h w)) b"
      by (simp add: buttonsTrackPhase_def)
    from r v0 v1 show ?thesis by blast
  qed
  from one many show ?thesis by blast
qed

theorem wrong_answers_retry_witness:
  "phase exampleShown = Active
   \<and> onAnswer exampleConfig None ''B'' exampleShown = retry exampleConfig exampleShown
   \<and> phase (onAnswer exampleConfig None ''B'' exampleShown) = Active
   \<and> calls (onAnswer exampleConfig None ''B'' exampleShown) = calls exampleShown
   \<and> textOf (onAnswer exampleConfig None ''B'' exampleShown) 0 = '' Wrong answer, try again''
   \<and> run exampleConfig
         ([Tick None 1, Tick None 1, Tick None 1] @ [Click None ''B'', Click None ''C''])
         exampleStarted
       = (retry exampleConfig ^^ 2) exampleShown
   \<and> phase (run exampleConfig
         ([Tick None 1, Tick None 1, Tick None 1] @ [Click None ''B'', Click None ''C''])
         exampleStarted) = Active
   \<and> active exampleShown 1 \<and> active exampleShown 2 \<and> active exampleShown 3
   \<and> active (run exampleConfig
         ([Tick None 1, Tick None 1, Tick None 1] @ [Click None ''B'', Click None ''C''])
         exampleStarted) 1
   \<and> active (run exampleConfig
         ([Tick None 1, Tick None 1, Tick None 1] @ [Click None ''B'', Click None ''C''])
         exampleStarted) 2
   \<and> active (run exampleConfig
         ([Tick None 1, Tick None 1, Tick None 1] @ [Click None ''B'', Click None ''C''])
         exampleStarted) 3"
proof -
  let ?pre = "[Tick None 1, Tick None 1, Tick None 1] :: real event list"
  let ?es = "[Click None ''B'', Click None ''C''] :: real event list"
  have act: "phase exampleShown = Active" by (rule exampleShown_fields)
  have neq: "''B'' \<noteq> correctAnswer exampleConfig" by (simp add: exampleConfig_fields)
  have sink: "feedbackObject exampleConfig \<noteq> None \<and> feedbackText exampleShown = Some 0"
    by (simp add: exampleConfig_fields exampleShown_fields)
  have wr: "list_all (wrongClick exampleConfig) ?es" by (simp add: exampleConfig_fields)
  have act': "phase (run exampleConfig ?pre (start exampleConfig exampleHost exampleScene)) = Active"
    using act by (simp only: exampleShown_def exampleStarted_def)
  have b: "1 \<in> buttons exampleConfig" "2 \<in> buttons exampleConfig" "3 \<in> buttons exampleConfig"
    by (simp_all add: exampleConfig_fields)
  note one = wrong_answers_retry
     [of exampleShown "''B''" exampleConfig None 0 "[]" exampleHost exampleScene "[]"]
  note many = wrong_answers_retry
     [of exampleShown "''B''" exampleConfig None 0 ?pre exampleHost exampleScene ?es,
      folded exampleStarted_def, folded exampleShown_def]
  from one act neq sink
  have 1: "onAnswer exampleConfig None ''B'' exampleShown = retry exampleConfig exampleShown"
    and 2: "phase (onAnswer exampleConfig None ''B'' exampleShown) = Active"
    and 3: "calls (onAnswer exampleConfig None ''B'' exampleShown) = calls exampleShown"
    and 4: "textOf (onAnswer exampleConfig None ''B'' exampleShown) 0
              = '' Wrong answer, try again''"
    by blast+
  from many act wr
  have 5: "run exampleConfig (?pre @ ?es) exampleStarted
             = (retry exampleConfig ^^ length ?es) exampleShown"
    and 6: "phase (run exampleConfig (?pre @ ?es) exampleStarted) = Active"
    and 7: "\<forall>b \<in> buttons exampleConfig.
              active exampleShown b \<and> active (run exampleConfig (?pre @ ?es) exampleStarted) b"
    by blast+
  have 8: "length ?es = 2" by simp
  from 5 have r5: "run exampleConfig (?pre @ ?es) exampleStarted
             = (retry exampleConfig ^^ 2) exampleShown"
    unfolding 8 .
  from 7 b have 9: "active exampleShown 1" "active exampleShown 2" "active exampleShown 3"
    "active (run exampleConfig (?pre @ ?es) exampleStarted) 1"
    "active (run exampleConfig (?pre @ ?es) exampleStarted) 2"
    "active (run exampleConfig (?pre @ ?es) exampleStarted) 3"
    by blast+
  from act 1 2 3 4 r5 6 9 show ?thesis by blast
qed

subsection \<open>Missing collaborators\<close>

text \<open>
  Claim C6. Whatever is bound, a correct answer in phase \<open>Active\<close> completes the quiz
  and a tick in phase \<open>Waiting\<close> whose sample has reached the trigger time makes it
  active. A call that finds no video makes no call on it: \<^verbatim>\<open>update\<close> leaves the
  media calls as they are and \<^verbatim>\<open>_onAnswer\<close> adds at most the audio call, which
  needs an audio source. Without a video object no call after \<^verbatim>\<open>start\<close> ever finds
  a video. Without a feedback object, or without a text component on it, no text changes;
  without a feedback object no object other than the buttons changes its visibility.
\<close>

theorem unbound_collaborators_degrade:
  "(phase q = Active \<longrightarrow> phase (onAnswer cfg v (correctAnswer cfg) q) = Completed)
   \<and> (phase q = Waiting \<and> quizTime cfg \<le> fst (sample q v dt)
        \<longrightarrow> phase (update cfg v dt q) = Active)
   \<and> (\<not> hasVideo q v \<longrightarrow>
        calls (update cfg v dt q) = calls q
        \<and> calls (onAnswer cfg v answer q)
            = calls q @ (if phase q = Active \<and> answer = correctAnswer cfg
                            \<and> audioSource q \<noteq> None
                         then [AudioPlay] else []))
   \<and> (videoObject cfg = None \<longrightarrow> \<not> hasVideo (run cfg es (start cfg h w)) v)
   \<and> (feedbackObject cfg = None \<or> feedbackText q = None
        \<longrightarrow> textOf (step cfg e q) = textOf q)
   \<and> (feedbackObject cfg = None \<and> y \<notin> buttons cfg
        \<longrightarrow> active (step cfg e q) y = active q y)"
proof -
  have a: "phase q = Active \<longrightarrow> phase (onAnswer cfg v (correctAnswer cfg) q) = Completed"
    by (simp add: phase_flags onAnswer_completed)
  have b: "phase q = Waiting \<and> quizTime cfg \<le> fst (sample q v dt)
        \<longrightarrow> phase (update cfg v dt q) = Active"
    by (simp add: phase_flags update_shown)
  have c: "\<not> hasVideo q v \<longrightarrow>
        calls (update cfg v dt q) = calls q
        \<and> calls (onAnswer cfg v answer q)
            = calls q @ (if phase q = Active \<and> answer = correctAnswer cfg
                            \<and> audioSource q \<noteq> None
                         then [AudioPlay] else [])"
    by (simp add: phase_flags update_calls onAnswer_calls)
  have d: "videoObject cfg = None \<longrightarrow> \<not> hasVideo (run cfg es (start cfg h w)) v"
    by (simp add: hasVideo_def run_videoComponent start_fields)
  have e: "feedbackObject cfg = None \<or> feedbackText q = None
        \<longrightarrow> textOf (step cfg e q) = textOf q"
    by (cases e) (auto simp: fun_eq_iff update_textOf onAnswer_textOf)
  have f: "feedbackObject cfg = None \<and> y \<notin> buttons cfg
        \<longrightarrow> active (step cfg e q) y = active q y"
    by (cases e) (auto simp: update_active onAnswer_active)
  from a b c d e f show ?thesis by blast
qed

theorem unbound_collaborators_degrade_witness:
  "videoObject bareConfig = None \<and> feedbackObject bareConfig = None
   \<and> phase bareShown = Active
   \<and> phase (onAnswer bareConfig None ''A'' bareShown) = Completed
   \<and> phase bareStarted = Waiting
   \<and> quizTime bareConfig \<le> fst (sample bareStarted None 3)
   \<and> phase (update bareConfig None 3 bareStarted) = Active
   \<and> \<not> hasVideo bareStarted None \<and> \<not> hasVideo bareShown None
   \<and> calls (update bareConfig None 3 bareStarted) = calls bareStarted
   \<and> calls (onAnswer bareConfig None ''A'' bareShown) = calls bareShown
   \<and> \<not> hasVideo bareShown (Some 7)
   \<and> textOf (step bareConfig (Click None ''A'') bareShown) = textOf bareShown
   \<and> 4 \<notin> buttons bareConfig
   \<and> active (step bareConfig (Click None ''A'') bareShown) 4 = active bareShown 4"
proof -
  have cfg: "videoObject bareConfig = None" "feedbackObject bareConfig = None"
    by (simp_all add: bareConfig_fields)
  have act: "phase bareShown = Active" by (rule bareShown_fields)
  have wait: "phase bareStarted = Waiting" by (rule bareStarted_fields)
  have due: "quizTime bareConfig \<le> fst (sample bareStarted None 3)"
    by (simp add: bareConfig_fields sample_def bareStarted_fields)
  have nv: "\<not> hasVideo bareStarted None" "\<not> hasVideo bareShown None"
    by (simp_all add: hasVideo_def)
  have nb: "4 \<notin> buttons bareConfig" by (simp add: bareConfig_fields)
  have sh: "bareShown = run bareConfig [Tick None 3] (start bareConfig exampleHost exampleScene)"
    by (simp add: bareShown_def bareStarted_def)
  note t1 = unbound_collaborators_degrade
     [of bareShown bareConfig None 3 "''A''" "[Tick None 3]" exampleHost exampleScene
         "Click None ''A''" 4, unfolded bareConfig_fields(2)]
  note t2 = unbound_collaborators_degrade
     [of bareStarted bareConfig None 3 "''A''" "[Tick None 3]" exampleHost exampleScene
         "Click None ''A''" 4]
  note t3 = unbound_collaborators_degrade
     [of bareShown bareConfig "Some 7" 3 "''A''" "[Tick None 3]" exampleHost exampleScene
         "Click None ''A''" 4, folded sh]
  from t1 act nv(2) cfg nb
  have 1: "phase (onAnswer bareConfig None ''A'' bareShown) = Completed"
    and 2: "calls (onAnswer bareConfig None ''A'' bareShown) = calls bareShown"
    and 3: "textOf (step bareConfig (Click None ''A'') bareShown) = textOf bareShown"
    and 4: "active (step bareConfig (Click None ''A'') bareShown) 4 = active bareShown 4"
    by (simp_all add: bareShown_fields)
  from t2 wait due nv(1)
  have 5: "phase (update bareConfig None 3 bareStarted) = Active"
    and 6: "calls (update bareConfig None 3 bareStarted) = calls bareStarted"
    by blast+
  from t3 cfg have 7: "\<not> hasVideo bareShown (Some 7)" by blast
  from cfg act wait due nv nb 1 2 3 4 5 6 7 show ?thesis by blast
qed

subsection \<open>The clock sample\<close>

text \<open>
  Claim C7 says that the clock samples of successive ticks never decrease and that each
  sample is the video's time whenever the video is there. The second half holds. The first
  fails when the source changes between ticks: with a video-texture component and trigger
  time 3, a first tick of 2 seconds that finds no video element samples the timer at 2,
  and a second tick that finds the element at time 1 samples 1. Both deltas are positive
  and the video was read once only.
\<close>

theorem samples_not_monotone:
  "samples videoConfig [(None, 2), (Some 1, 1)] videoStarted = [2, 1]
   \<and> \<not> sorted (samples videoConfig [(None, 2), (Some 1, 1)] videoStarted)"
  by (simp add: videoStarted_fields update_shown update_elapsed sample_def hasVideo_def)

text \<open>
  Claim C7, amended. On every tick that takes a sample, the sample is the video's time
  when the video is there, and the timer is neither read nor advanced; otherwise the
  delta is added to the timer and the sum is the sample (for every number type \<open>'n\<close>).
  Along a frame sequence in which no tick finds a video and no delta is negative the
  samples never decrease; along one in which every tick finds the video the samples never
  decrease if the video's readings do not (type \<open>'m\<close>: the order is linear and agrees
  with addition). Nothing is claimed across a change of source.
\<close>

theorem sample_prefers_video:
  fixes q :: "('n :: plus) quiz"
    and q' :: "('m :: {linorder,ordered_comm_monoid_add}) quiz"
  shows
  "(hasVideo q (Some t) \<longrightarrow> sample q (Some t) dt = (t, q))
   \<and> (\<not> hasVideo q v \<longrightarrow> sample q v dt = (elapsed q + dt, q\<lparr>elapsed := elapsed q + dt\<rparr>))
   \<and> ((\<forall>t \<in> set ts. \<not> hasVideo q' (fst t) \<and> 0 \<le> snd t) \<longrightarrow> sorted (samples cfg ts q'))
   \<and> ((\<forall>t \<in> set ts. hasVideo q' (fst t)) \<and> sorted (readings ts)
        \<longrightarrow> sorted (samples cfg ts q'))"
  using fallback_samples_sorted [of ts q' cfg] video_samples_sorted [of ts q' cfg]
  by (simp add: sample_video sample_fallback)

theorem sample_prefers_video_witness:
  "hasVideo videoStarted (Some 1)
   \<and> sample videoStarted (Some 1) 2 = (1, videoStarted)
   \<and> \<not> hasVideo videoStarted None
   \<and> sample videoStarted None 2
       = (elapsed videoStarted + 2, videoStarted\<lparr>elapsed := elapsed videoStarted + 2\<rparr>)
   \<and> \<not> hasVideo exampleStarted None \<and> \<not> hasVideo exampleStarted (Some 5)
   \<and> sorted (samples exampleConfig [(None, 1), (Some 5, 0), (None, 1)] exampleStarted)
   \<and> hasVideo videoStarted (Some 2)
   \<and> sorted (readings [(Some (1 :: real), 1 :: real), (Some 2, 1), (Some 2, 1)])
   \<and> sorted (samples videoConfig [(Some 1, 1), (Some 2, 1), (Some 2, 1)] videoStarted)"
proof -
  let ?fb = "[(None, 1), (Some 5, 0), (None, 1)] :: (real option \<times> real) list"
  let ?vd = "[(Some 1, 1), (Some 2, 1), (Some 2, 1)] :: (real option \<times> real) list"
  have hv: "hasVideo videoStarted (Some 1)" "hasVideo videoStarted (Some 2)"
    by (simp_all add: hasVideo_def videoStarted_fields)
  have nv: "\<not> hasVideo videoStarted None" by (simp add: hasVideo_def)
  have nx: "\<not> hasVideo exampleStarted None" "\<not> hasVideo exampleStarted (Some 5)"
    by (simp_all add: hasVideo_def exampleStarted_fields)
  have fb: "\<forall>t \<in> set ?fb. \<not> hasVideo exampleStarted (fst t) \<and> 0 \<le> snd t"
    using nx by simp
  have vd: "\<forall>t \<in> set ?vd. hasVideo videoStarted (fst t)"
    using hv by simp
  have rd: "sorted (readings ?vd)"
    by (simp add: readings_def map_filter_simps)
  from sample_prefers_video [of videoStarted 1 2 None ?vd videoStarted videoConfig] hv(1) nv
  have 1: "sample videoStarted (Some 1) 2 = (1, videoStarted)"
    and 2: "sample videoStarted None 2
       = (elapsed videoStarted + 2, videoStarted\<lparr>elapsed := elapsed videoStarted + 2\<rparr>)"
    by blast+
  from sample_prefers_video [of videoStarted 1 2 None ?fb exampleStarted exampleConfig] fb
  have 3: "sorted (samples exampleConfig ?fb exampleStarted)" by blast
  from sample_prefers_video [of videoStarted 1 2 None ?vd videoStarted videoConfig] vd rd
  have 4: "sorted (samples videoConfig ?vd videoStarted)" by blast
  from hv nv nx rd 1 2 3 4 show ?thesis by blast
qed

subsection \<open>Effects are idempotent\<close>

text \<open>
  Claim C8. Each presentation effect applied twice in a row gives the state it gives
  applied once, in every field: showing the quiz (all assigned buttons visible, feedback
  object visible with empty text), success (success text, all assigned buttons hidden)
  and retry (retry text); likewise the two helpers they are made of. The lemmas
  \<open>update_is_reveal\<close> and \<open>onAnswer_is_succeed\<close> show where \<^verbatim>\<open>update\<close> and
  \<^verbatim>\<open>_onAnswer\<close> apply these effects.
\<close>

theorem effects_idempotent:
  "reveal cfg (reveal cfg q) = reveal cfg q
   \<and> succeed cfg (succeed cfg q) = succeed cfg q
   \<and> retry cfg (retry cfg q) = retry cfg q
   \<and> setButtonsActive cfg b (setButtonsActive cfg b q) = setButtonsActive cfg b q
   \<and> showFeedback cfg t (showFeedback cfg t q) = showFeedback cfg t q"
  by (simp add: reveal_twice succeed_twice retry_def showFeedback_twice setButtonsActive_twice)

subsection \<open>Buttons are visible exactly while the quiz is active\<close>

text \<open>
  Claim C9. In every state reached from \<^verbatim>\<open>start\<close> by ticks and clicks, each assigned
  button is visible if and only if the phase is \<open>Active\<close>. This holds also when the
  feedback object is one of the buttons, since the success branch shows the feedback
  before it hides the buttons.
\<close>

theorem buttons_visible_iff_active:
  "\<forall>b \<in> buttons cfg.
     active (run cfg es (start cfg h w)) b = (phase (run cfg es (start cfg h w)) = Active)"
  using run_tracks [OF start_tracks, of cfg es h w] by (simp add: buttonsTrackPhase_def)

theorem buttons_visible_iff_active_witness:
  "1 \<in> buttons exampleConfig
   \<and> phase exampleStarted = Waiting \<and> \<not> active exampleStarted 1
   \<and> phase exampleShown = Active \<and> active exampleShown 1
   \<and> phase exampleDone = Completed \<and> \<not> active exampleDone 1"
proof -
  have b: "1 \<in> buttons exampleConfig" by (simp add: exampleConfig_fields)
  have d: "exampleDone
      = run exampleConfig [Tick None 1, Tick None 1, Tick None 1, Click None ''A'']
          (start exampleConfig exampleHost exampleScene)"
    by (simp add: exampleDone_def exampleShown_def exampleStarted_def)
  from buttons_visible_iff_active [of exampleConfig "[]" exampleHost exampleScene] b
  have 1: "\<not> active exampleStarted 1"
    by (simp add: exampleStarted_def [symmetric] exampleStarted_fields)
  from buttons_visible_iff_active
     [of exampleConfig "[Tick None 1, Tick None 1, Tick None 1]" exampleHost exampleScene] b
  have 2: "active exampleShown 1"
    using exampleShown_fields(8) by (simp add: exampleShown_def exampleStarted_def)
  from buttons_visible_iff_active
     [of exampleConfig "[Tick None 1, Tick None 1, Tick None 1, Click None ''A'']"
         exampleHost exampleScene] b
  have 3: "\<not> active exampleDone 1"
    unfolding d [symmetric] by (simp add: exampleDone_fields)
  from b 1 2 3 exampleStarted_fields(8) exampleShown_fields(8) exampleDone_fields(4)
  show ?thesis by blast
qed

subsection \<open>The audio branch\<close>

text \<open>
  Claim C10. No method writes \<open>audioSource\<close>: \<^verbatim>\<open>start\<close> and every call keep the
  value they find, and the editor properties have no such field. So on an instance whose
  \<open>audioSource\<close> is undefined before \<^verbatim>\<open>start\<close>, it is undefined in every state
  reached by ticks and clicks, and the media calls never gain an audio call. The correct
  answer completes the quiz whatever \<open>audioSource\<close> holds, and apart from the media
  calls the state after a click does not depend on it.
\<close>

theorem audio_branch_unreachable:
  "audioSource (start cfg h w) = audioSource w
   \<and> audioSource (step cfg e q) = audioSource q
   \<and> (audioSource w = None \<longrightarrow>
        audioSource (run cfg es (start cfg h w)) = None
        \<and> count_list (calls (run cfg es (start cfg h w))) AudioPlay
            = count_list (calls w) AudioPlay)
   \<and> (phase q = Active \<longrightarrow> phase (onAnswer cfg v (correctAnswer cfg) q) = Completed)
   \<and> (onAnswer cfg v answer (q\<lparr>audioSource := x\<rparr>))\<lparr>audioSource := audioSource q, calls := cs\<rparr>
       = (onAnswer cfg v answer q)\<lparr>calls := cs\<rparr>"
proof -
  have a: "audioSource w = None \<longrightarrow>
        audioSource (run cfg es (start cfg h w)) = None
        \<and> count_list (calls (run cfg es (start cfg h w))) AudioPlay
            = count_list (calls w) AudioPlay"
    by (simp add: run_audioSource run_no_audio start_fields)
  have b: "phase q = Active \<longrightarrow> phase (onAnswer cfg v (correctAnswer cfg) q) = Completed"
    by (simp add: phase_flags onAnswer_completed)
  have c: "(onAnswer cfg v answer (q\<lparr>audioSource := x\<rparr>))\<lparr>audioSource := audioSource q, calls := cs\<rparr>
       = (onAnswer cfg v answer q)\<lparr>calls := cs\<rparr>"
    by (rule quiz.equality)
       (auto simp: fun_eq_iff onAnswer_shown onAnswer_completed onAnswer_active
          onAnswer_textOf)
  show ?thesis
    using a b c by (simp add: start_fields step_audioSource)
qed

theorem audio_branch_unreachable_witness:
  "audioSource exampleScene = None
   \<and> audioSource exampleDone = None
   \<and> count_list (calls exampleDone) AudioPlay = count_list (calls exampleScene) AudioPlay
   \<and> phase exampleShown = Active
   \<and> phase (onAnswer exampleConfig None ''A'' exampleShown) = Completed"
proof -
  have n: "audioSource exampleScene = None" by (simp add: exampleScene_def)
  have d: "exampleDone
      = run exampleConfig [Tick None 1, Tick None 1, Tick None 1, Click None ''A'']
          (start exampleConfig exampleHost exampleScene)"
    by (simp add: exampleDone_def exampleShown_def exampleStarted_def)
  have act: "phase exampleShown = Active" by (rule exampleShown_fields)
  from audio_branch_unreachable
     [of exampleConfig exampleHost exampleScene "Tick None 1" exampleShown
         "[Tick None 1, Tick None 1, Tick None 1, Click None ''A'']" None] n act
  show ?thesis
    unfolding d [symmetric] exampleConfig_fields by blast
qed

end
